theory Spec2Isabelle
  imports Complex_Main
begin

section \<open>Numbers\<close>

text \<open>
  Python's \<open>float\<close> values (prices, amounts) are modelled by exact real numbers, Python's
  unbounded \<open>int\<close> by \<open>int\<close>.  \<open>round2 x\<close> is \<open>round(x, 2)\<close>: the nearest multiple of
  one hundredth, a tie going to the even neighbour.
\<close>

definition round_half_even :: "real \<Rightarrow> int" where
  "round_half_even x =
     (let f = \<lfloor>x\<rfloor>; d = x - of_int f
      in if d < 1 / 2 then f
         else if 1 / 2 < d then f + 1
         else if even f then f else f + 1)"

definition round2 :: "real \<Rightarrow> real" where
  "round2 x = of_int (round_half_even (x * 100)) / 100"

section \<open>Store identifiers\<close>

text \<open>
  Modelled from the spec: the store's native identifier format (\<open>bson.ObjectId\<close>, which is
  not among the sources).  An identifier string is well formed when it consists of 24
  hexadecimal digits; the identifier it denotes prints in lower case.
\<close>

datatype oid = Oid string

fun str_oid :: "oid \<Rightarrow> string" where
  "str_oid (Oid s) = s"

definition is_hex :: "char \<Rightarrow> bool" where
  "is_hex c = (c \<in> set ''0123456789abcdefABCDEF'')"

definition lower_hex :: "char \<Rightarrow> char" where
  "lower_hex c =
     (if c = CHR ''A'' then CHR ''a'' else if c = CHR ''B'' then CHR ''b''
      else if c = CHR ''C'' then CHR ''c'' else if c = CHR ''D'' then CHR ''d''
      else if c = CHR ''E'' then CHR ''e'' else if c = CHR ''F'' then CHR ''f''
      else c)"

definition ObjectId :: "string \<Rightarrow> oid option" where
  "ObjectId s =
     (if length s = 24 \<and> list_all is_hex s then Some (Oid (map lower_hex s)) else None)"

section \<open>Schemas\<close>

text \<open>The pydantic models of \<open>schemas.py\<close>; \<open>image\<close> and \<open>total\<close> are renamed.\<close>

record OrderItem =
  product_id :: string
  title :: string
  price :: real
  quantity :: int
  image_url :: "string option"

record Order =
  customer_name :: string
  customer_email :: string
  customer_address :: string
  items :: "OrderItem list"
  subtotal :: real
  shipping :: real
  total_due :: real
  status :: string

text \<open>The field constraints (\<open>ge=0\<close>, \<open>ge=1\<close>) that constructing a model instance checks.
  The format check of \<open>EmailStr\<close> belongs to a library and is the parameter \<open>email_ok\<close>.\<close>

definition OrderItem_schema :: "OrderItem \<Rightarrow> bool" where
  "OrderItem_schema it = (0 \<le> price it \<and> 1 \<le> quantity it)"

definition Order_schema :: "(string \<Rightarrow> bool) \<Rightarrow> Order \<Rightarrow> bool" where
  "Order_schema email_ok ord =
     (email_ok (customer_email ord) \<and> list_all OrderItem_schema (items ord)
      \<and> 0 \<le> subtotal ord \<and> 0 \<le> shipping ord \<and> 0 \<le> total_due ord)"

section \<open>The document store\<close>

text \<open>
  A stored product document.  The store is schema-free, so every field the code reads with
  \<open>prod.get(key, default)\<close> is optional (\<open>None\<close>: the key is absent); \<open>_id\<close> is always there.
\<close>

record product_doc =
  doc_id :: oid
  doc_title :: "string option"
  doc_description :: "string option"
  doc_price :: "real option"
  doc_category :: "string option"
  doc_image :: "string option"
  doc_in_stock :: "bool option"
  doc_stock_qty :: "int option"

text \<open>The two collections, \<open>db["product"]\<close> and \<open>db["order"]\<close>, each a list of documents;
  an order document is its \<open>_id\<close> with the fields of the \<open>Order\<close> model.\<close>

record database =
  product_coll :: "product_doc list"
  order_coll :: "(oid \<times> Order) list"

datatype error =
    HTTPException nat string
  | RequestValidationError
  | ValidationError
  | InvalidId
  | PersistenceError

text \<open>\<open>d.get(key, default)\<close> on an optional field.\<close>

definition get_or :: "'a option \<Rightarrow> 'a \<Rightarrow> 'a" where
  "get_or field dflt = (case field of None \<Rightarrow> dflt | Some v \<Rightarrow> v)"

text \<open>\<open>collection.find_one({"_id": oid})\<close>: the first document with that identifier.\<close>

definition find_one :: "('d \<Rightarrow> oid) \<Rightarrow> oid \<Rightarrow> 'd list \<Rightarrow> 'd option" where
  "find_one ident i coll = List.find (\<lambda>d. ident d = i) coll"

text \<open>\<open>db["product"].update_one({"_id": oid}, {"$inc": {"stock_qty": n}})\<close>: the first
  matching document has \<open>n\<close> added to its \<open>stock_qty\<close> (an absent field counts as 0); with no
  match nothing changes.\<close>

fun update_one_inc_stock_qty :: "oid \<Rightarrow> int \<Rightarrow> product_doc list \<Rightarrow> product_doc list" where
  "update_one_inc_stock_qty i n [] = []"
| "update_one_inc_stock_qty i n (d # ds) =
     (if doc_id d = i then d\<lparr>doc_stock_qty := Some (get_or (doc_stock_qty d) 0 + n)\<rparr> # ds
      else d # update_one_inc_stock_qty i n ds)"

text \<open>
  Modelled from the spec: \<open>create_document\<close> of the \<open>database\<close> module, which is not among the
  sources ("persist a new Order document"; a failed write is a \<open>PersistenceError\<close> and
  leaves the store as it was).  The store assigns the identifier \<open>new_id\<close>; the write fails
  when a document with that identifier exists already.  The result is the identifier
  as a string.
\<close>

definition create_document ::
  "oid \<Rightarrow> Order \<Rightarrow> (oid \<times> Order) list \<Rightarrow> error + (string \<times> (oid \<times> Order) list)" where
  "create_document new_id doc coll =
     (case find_one fst new_id coll of
        Some _ \<Rightarrow> Inl PersistenceError
      | None \<Rightarrow> Inr (str_oid new_id, coll @ [(new_id, doc)]))"

section \<open>Product lookup\<close>

text \<open>\<open>get_product\<close> (\<open>GET /api/products/{product_id}\<close>).  A handler maps the store and its
  input to the outcome and the store afterwards.  The outcome is the document found; its
  rendering is \<open>serialize_doc\<close> below.\<close>

definition get_product :: "database \<Rightarrow> string \<Rightarrow> (error + product_doc) \<times> database" where
  "get_product db pid =
     (case ObjectId pid of
        None \<Rightarrow> (Inl (HTTPException 400 ''Invalid product id''), db)
      | Some i \<Rightarrow>
          (case find_one doc_id i (product_coll db) of
             None \<Rightarrow> (Inl (HTTPException 404 ''Product not found''), db)
           | Some doc \<Rightarrow> (Inr doc, db)))"

section \<open>Order placement\<close>

text \<open>The body of the loop over \<open>order.items\<close> in \<open>create_order\<close>: the item's price and
  its sanitized copy, or the error raised.  Building the \<open>OrderItem\<close> checks its schema.\<close>

definition price_item :: "product_doc list \<Rightarrow> OrderItem \<Rightarrow> error + (real \<times> OrderItem)" where
  "price_item products item =
     (case ObjectId (product_id item) of
        None \<Rightarrow> Inl (HTTPException 400 (''Invalid product id: '' @ product_id item))
      | Some i \<Rightarrow>
          (case find_one doc_id i products of
             None \<Rightarrow> Inl (HTTPException 404 (''Product not found: '' @ product_id item))
           | Some product \<Rightarrow>
               if \<not> get_or (doc_in_stock product) True
                  \<or> get_or (doc_stock_qty product) 0 < quantity item
               then Inl (HTTPException 400
                           (''Insufficient stock for '' @ get_or (doc_title product) ''product''))
               else
                 let unit_price = get_or (doc_price product) 0;
                     sanitized = \<lparr>product_id = str_oid (doc_id product),
                                  title = get_or (doc_title product) ''Product'',
                                  price = unit_price,
                                  quantity = quantity item,
                                  image_url = doc_image product\<rparr>
                 in if OrderItem_schema sanitized then Inr (unit_price, sanitized)
                    else Inl ValidationError))"

text \<open>The loop, with its two accumulators.\<close>

fun price_items ::
  "product_doc list \<Rightarrow> OrderItem list \<Rightarrow> real \<Rightarrow> OrderItem list
     \<Rightarrow> error + (real \<times> OrderItem list)" where
  "price_items products [] computed_subtotal sanitized_items =
     Inr (computed_subtotal, sanitized_items)"
| "price_items products (item # rest) computed_subtotal sanitized_items =
     (case price_item products item of
        Inl e \<Rightarrow> Inl e
      | Inr (unit_price, sanitized) \<Rightarrow>
          price_items products rest
            (computed_subtotal + unit_price * of_int (quantity item))
            (sanitized_items @ [sanitized]))"

text \<open>The loop that decrements the stock.  An error leaves the decrements made so far.\<close>

fun decrement_stock ::
  "OrderItem list \<Rightarrow> product_doc list \<Rightarrow> error option \<times> product_doc list" where
  "decrement_stock [] products = (None, products)"
| "decrement_stock (it # its) products =
     (case ObjectId (product_id it) of
        None \<Rightarrow> (Some InvalidId, products)
      | Some i \<Rightarrow> decrement_stock its (update_one_inc_stock_qty i (- quantity it) products))"

text \<open>\<open>create_order\<close>.  Its outcome is the order document read back from the store.\<close>

definition create_order ::
  "(string \<Rightarrow> bool) \<Rightarrow> database \<Rightarrow> oid \<Rightarrow> Order
     \<Rightarrow> (error + (oid \<times> Order) option) \<times> database" where
  "create_order email_ok db new_id ord =
     (if items ord = [] then (Inl (HTTPException 400 ''No items in order''), db)
      else
        (case price_items (product_coll db) (items ord) 0 [] of
           Inl e \<Rightarrow> (Inl e, db)
         | Inr priced \<Rightarrow>
             (let computed_subtotal = fst priced;
                  sanitized_items = snd priced;
                  shipping_cost = (if shipping ord = 0 then 0 else shipping ord);
                  total_amount = round2 (computed_subtotal + shipping_cost);
                  order_doc = \<lparr>customer_name = customer_name ord,
                               customer_email = customer_email ord,
                               customer_address = customer_address ord,
                               items = sanitized_items,
                               subtotal = round2 computed_subtotal,
                               shipping = round2 shipping_cost,
                               total_due = total_amount,
                               status = ''processing''\<rparr>
              in if \<not> Order_schema email_ok order_doc then (Inl ValidationError, db)
                 else
                   (case create_document new_id order_doc (order_coll db) of
                      Inl e \<Rightarrow> (Inl e, db)
                    | Inr created \<Rightarrow>
                        (let order_id = fst created;
                             decremented = decrement_stock sanitized_items (product_coll db);
                             db' = \<lparr>product_coll = snd decremented, order_coll = snd created\<rparr>
                         in (case fst decremented of
                               Some e \<Rightarrow> (Inl e, db')
                             | None \<Rightarrow>
                                 (case ObjectId order_id of
                                    None \<Rightarrow> (Inl InvalidId, db')
                                  | Some i \<Rightarrow> (Inr (find_one fst i (order_coll db')), db'))))))))"

text \<open>\<open>POST /api/orders\<close> as the framework runs it: the request body is checked against
  the \<open>Order\<close> schema before \<open>create_order\<close> is called.\<close>

definition post_api_orders ::
  "(string \<Rightarrow> bool) \<Rightarrow> database \<Rightarrow> oid \<Rightarrow> Order
     \<Rightarrow> (error + (oid \<times> Order) option) \<times> database" where
  "post_api_orders email_ok db new_id body =
     (if Order_schema email_ok body then create_order email_ok db new_id body
      else (Inl RequestValidationError, db))"

section \<open>Serialization\<close>

text \<open>
  The values a stored document holds.  A date or time value is represented by its
  \<open>isoformat()\<close> text; it is the only kind of value with an \<open>isoformat\<close> attribute.
  A document is a Python \<open>dict\<close>: its keys are distinct and keep their insertion order.
\<close>

datatype pyvalue =
    VObjectId oid
  | VDatetime string
  | VStr string
  | VInt int
  | VFloat real
  | VBool bool
  | VNone
  | VList "pyvalue list"
  | VDict "(string \<times> pyvalue) list"

type_synonym document = "(string \<times> pyvalue) list"

text \<open>\<open>out[k] = v\<close>: an existing key keeps its place, a new key goes last.\<close>

fun dict_set :: "document \<Rightarrow> string \<Rightarrow> pyvalue \<Rightarrow> document" where
  "dict_set [] k v = [(k, v)]"
| "dict_set (kv # out) k v =
     (if fst kv = k then (k, v) # out else kv # dict_set out k v)"

text \<open>The loop of \<open>serialize_doc\<close> over \<open>doc.items()\<close>.  Python's built-in \<open>str\<close> is the
  parameter \<open>str\<close>.\<close>

fun serialize_items :: "(pyvalue \<Rightarrow> string) \<Rightarrow> document \<Rightarrow> document \<Rightarrow> document" where
  "serialize_items str [] out = out"
| "serialize_items str (kv # rest) out =
     serialize_items str rest
       (if fst kv = ''_id'' then dict_set out ''id'' (VStr (str (snd kv)))
        else (case snd kv of
                VDatetime stamp \<Rightarrow> dict_set out (fst kv) (VStr stamp)
              | _ \<Rightarrow> dict_set out (fst kv) (snd kv)))"

text \<open>\<open>serialize_doc\<close>; \<open>None\<close> and the empty document are returned as they are.\<close>

definition serialize_doc :: "(pyvalue \<Rightarrow> string) \<Rightarrow> document option \<Rightarrow> document option" where
  "serialize_doc str doc =
     (case doc of
        None \<Rightarrow> None
      | Some d \<Rightarrow> if d = [] then Some d else Some (serialize_items str d []))"

section \<open>The vocabulary of the specification\<close>

text \<open>The specification's names for the client errors that \<open>create_order\<close> raises.\<close>

definition EmptyOrder :: error where
  "EmptyOrder = HTTPException 400 ''No items in order''"

definition InvalidIdentifier :: "string \<Rightarrow> error" where
  "InvalidIdentifier pid = HTTPException 400 (''Invalid product id: '' @ pid)"

definition ProductNotFound :: "string \<Rightarrow> error" where
  "ProductNotFound pid = HTTPException 404 (''Product not found: '' @ pid)"

definition InsufficientStock :: "string \<Rightarrow> error" where
  "InsufficientStock product_title = HTTPException 400 (''Insufficient stock for '' @ product_title)"

text \<open>An item passes validation when the loop body raises nothing for it.\<close>

definition item_passes :: "product_doc list \<Rightarrow> OrderItem \<Rightarrow> bool" where
  "item_passes products item = (case price_item products item of Inl _ \<Rightarrow> False | Inr _ \<Rightarrow> True)"

text \<open>The sum of unit price times quantity over line items, not rounded.\<close>

definition line_total :: "OrderItem list \<Rightarrow> real" where
  "line_total its = (\<Sum>it\<leftarrow>its. price it * of_int (quantity it))"

text \<open>The quantity a request orders of the product \<open>i\<close>, over all its lines.\<close>

definition ordered_qty :: "oid \<Rightarrow> OrderItem list \<Rightarrow> int" where
  "ordered_qty i its = (\<Sum>it\<leftarrow>filter (\<lambda>it. ObjectId (product_id it) = Some i) its. quantity it)"

text \<open>The sanitized line item for a requested item and the product it refers to.\<close>

definition snapshot :: "product_doc \<Rightarrow> OrderItem \<Rightarrow> OrderItem" where
  "snapshot product item =
     \<lparr>product_id = str_oid (doc_id product),
      title = get_or (doc_title product) ''Product'',
      price = get_or (doc_price product) 0,
      quantity = quantity item,
      image_url = doc_image product\<rparr>"

text \<open>Two requests that differ at most in what the client supplied as price, title and
  image of their items.\<close>

definition same_but_item_details :: "Order \<Rightarrow> Order \<Rightarrow> bool" where
  "same_but_item_details a b =
     (a\<lparr>items := []\<rparr> = b\<lparr>items := []\<rparr>
      \<and> map (\<lambda>it. (product_id it, quantity it)) (items a)
        = map (\<lambda>it. (product_id it, quantity it)) (items b))"

text \<open>What the serialization rule makes of one field of a document.\<close>

definition render_field :: "(pyvalue \<Rightarrow> string) \<Rightarrow> string \<times> pyvalue \<Rightarrow> string \<times> pyvalue" where
  "render_field str kv =
     (if fst kv = ''_id'' then (''id'', VStr (str (snd kv)))
      else (case snd kv of VDatetime stamp \<Rightarrow> (fst kv, VStr stamp) | _ \<Rightarrow> kv))"

section \<open>Sample data\<close>

definition tee_id :: string where
  "tee_id = ''64b7f0c2a1d3e4f5a6b7c8d9''"

definition absent_id :: string where
  "absent_id = ''0123456789abcdef01234567''"

definition order_id1 :: oid where
  "order_id1 = Oid ''aaaaaaaaaaaaaaaaaaaaaaa1''"

definition any_email :: "string \<Rightarrow> bool" where
  "any_email s = True"

definition tee :: product_doc where
  "tee = \<lparr>doc_id = Oid tee_id, doc_title = Some ''Classic Tee'',
          doc_description = Some ''Soft cotton t-shirt'', doc_price = Some (1999 / 100),
          doc_category = Some ''Apparel'', doc_image = Some ''tee.jpg'',
          doc_in_stock = Some True, doc_stock_qty = Some 100\<rparr>"

definition sold_out :: product_doc where
  "sold_out = tee\<lparr>doc_in_stock := Some False, doc_stock_qty := Some 0\<rparr>"

definition mill :: product_doc where
  "mill = tee\<lparr>doc_title := Some ''Mill'', doc_price := Some (4 / 1000)\<rparr>"

definition shop :: "product_doc \<Rightarrow> database" where
  "shop p = \<lparr>product_coll = [p], order_coll = []\<rparr>"

definition line :: "string \<Rightarrow> int \<Rightarrow> OrderItem" where
  "line pid n = \<lparr>product_id = pid, title = ''?'', price = 0, quantity = n, image_url = None\<rparr>"

definition request :: "OrderItem list \<Rightarrow> real \<Rightarrow> Order" where
  "request its ship =
     \<lparr>customer_name = ''Ada'', customer_email = ''ada@example.org'',
      customer_address = ''1 Main St'', items = its, subtotal = 0, shipping = ship,
      total_due = 0, status = ''paid''\<rparr>"

definition placed :: "OrderItem list \<Rightarrow> real \<Rightarrow> real \<Rightarrow> real \<Rightarrow> Order" where
  "placed its sub ship tot =
     \<lparr>customer_name = ''Ada'', customer_email = ''ada@example.org'',
      customer_address = ''1 Main St'', items = its, subtotal = sub, shipping = ship,
      total_due = tot, status = ''processing''\<rparr>"

definition tee_doc :: document where
  "tee_doc = [(''_id'', VObjectId (Oid tee_id)), (''title'', VStr ''Classic Tee''),
              (''price'', VFloat (1999 / 100)), (''stock_qty'', VInt 100),
              (''created_at'', VDatetime ''2024-05-01T12:00:00'')]"

definition str_id :: "pyvalue \<Rightarrow> string" where
  "str_id v = (case v of VObjectId i \<Rightarrow> str_oid i | VStr s \<Rightarrow> s | _ \<Rightarrow> [])"

definition tee_order :: Order where
  "tee_order = placed [snapshot tee (line tee_id 3)] (5997 / 100) 5 (6497 / 100)"

definition mill_order :: Order where
  "mill_order = placed [snapshot mill (line tee_id 1)] 0 0 (1 / 100)"

definition pair_order :: Order where
  "pair_order = placed [snapshot tee (line tee_id 2), snapshot tee (line tee_id 3)]
                  (9995 / 100) 0 (9995 / 100)"

definition tampered :: OrderItem where
  "tampered = \<lparr>product_id = tee_id, title = ''Free Tee'', price = 1 / 100, quantity = 3,
                image_url = Some ''x.png''\<rparr>"

definition forged :: Order where
  "forged = (request [line tee_id 3] 5)\<lparr>subtotal := 1 / 100, total_due := 1 / 100,
                                          status := ''delivered''\<rparr>"

definition oversold_order :: Order where
  "oversold_order = placed [snapshot tee (line tee_id 60), snapshot tee (line tee_id 60)]
                      (239880 / 100) 0 (239880 / 100)"

definition clash_doc :: document where
  "clash_doc = [(''_id'', VObjectId (Oid tee_id)), (''title'', VStr ''Classic Tee''),
                (''id'', VInt 7)]"

section \<open>Identifiers and lookups\<close>

lemma lower_hex_idem: "lower_hex (lower_hex c) = lower_hex c"
  by (simp add: lower_hex_def)

lemma is_hex_lower: "is_hex c \<Longrightarrow> is_hex (lower_hex c)"
  by (auto simp: is_hex_def lower_hex_def)

lemma ObjectId_str_oid: "ObjectId s = Some i \<Longrightarrow> ObjectId (str_oid i) = Some i"
  by (auto simp: ObjectId_def list_all_iff is_hex_lower lower_hex_idem split: if_splits)

lemma find_one_ident: "find_one ident i coll = Some d \<Longrightarrow> ident d = i"
  by (auto simp: find_one_def find_Some_iff)

lemma find_one_update:
  "find_one doc_id j (update_one_inc_stock_qty i n ps) =
     (if j = i
      then map_option (\<lambda>d. d\<lparr>doc_stock_qty := Some (get_or (doc_stock_qty d) 0 + n)\<rparr>)
             (find_one doc_id i ps)
      else find_one doc_id j ps)"
  by (induction ps) (auto simp: find_one_def)

lemma price_item_Inr:
  assumes "price_item ps item = Inr (p, s)"
  shows "\<exists>i d. ObjectId (product_id item) = Some i \<and> find_one doc_id i ps = Some d
           \<and> get_or (doc_in_stock d) True \<and> quantity item \<le> get_or (doc_stock_qty d) 0
           \<and> p = price s \<and> s = snapshot d item \<and> 0 \<le> price s \<and> 1 \<le> quantity item"
  using assms
  by (auto simp: price_item_def snapshot_def Let_def OrderItem_schema_def
           split: option.splits if_splits)

lemma price_items_Inr:
  "price_items ps its cs san = Inr (cs', san') \<Longrightarrow>
     \<exists>new. san' = san @ new \<and> cs' = cs + line_total new
        \<and> list_all2 (\<lambda>it s. price_item ps it = Inr (price s, s)) its new"
proof (induction its arbitrary: cs san)
  case Nil
  then show ?case by (simp add: line_total_def)
next
  case (Cons it its)
  from Cons.prems obtain p s where b: "price_item ps it = Inr (p, s)"
    and r: "price_items ps its (cs + p * of_int (quantity it)) (san @ [s]) = Inr (cs', san')"
    by (auto split: sum.splits)
  from price_item_Inr[OF b] have ps: "p = price s" and q: "quantity s = quantity it"
    by (auto simp: snapshot_def)
  from Cons.IH[OF r] obtain new where n: "san' = (san @ [s]) @ new"
    "cs' = cs + p * of_int (quantity it) + line_total new"
    "list_all2 (\<lambda>it s. price_item ps it = Inr (price s, s)) its new" by blast
  show ?case
    by (rule exI[of _ "s # new"]) (use n b ps q in \<open>simp add: line_total_def\<close>)
qed

lemma price_items_Inl:
  "price_items ps its cs san = Inl e \<longleftrightarrow>
     (\<exists>pre it post. its = pre @ it # post \<and> list_all (item_passes ps) pre
        \<and> price_item ps it = Inl e)"
proof (induction its arbitrary: cs san)
  case Nil
  then show ?case by simp
next
  case (Cons a its)
  show ?case
  proof (cases "price_item ps a")
    case (Inl e')
    then have np: "\<not> item_passes ps a" by (simp add: item_passes_def)
    show ?thesis
    proof
      assume "price_items ps (a # its) cs san = Inl e"
      with Inl have "e' = e" by simp
      with Inl have "a # its = [] @ a # its \<and> list_all (item_passes ps) [] \<and> price_item ps a = Inl e"
        by simp
      then show "\<exists>pre it post. a # its = pre @ it # post \<and> list_all (item_passes ps) pre
        \<and> price_item ps it = Inl e" by blast
    next
      assume "\<exists>pre it post. a # its = pre @ it # post \<and> list_all (item_passes ps) pre
        \<and> price_item ps it = Inl e"
      then obtain pre it post where h: "a # its = pre @ it # post" "list_all (item_passes ps) pre"
        "price_item ps it = Inl e" by blast
      have "pre = []"
      proof (cases pre)
        case Nil then show ?thesis .
      next
        case (Cons b bs)
        with h(1,2) np show ?thesis by auto
      qed
      with h Inl show "price_items ps (a # its) cs san = Inl e" by simp
    qed
  next
    case (Inr r)
    obtain p s where r: "r = (p, s)" by (cases r)
    from Inr have pa: "item_passes ps a" by (simp add: item_passes_def)
    have step: "price_items ps (a # its) cs san
                 = price_items ps its (cs + p * of_int (quantity a)) (san @ [s])"
      using Inr r by simp
    show ?thesis
    proof
      assume "price_items ps (a # its) cs san = Inl e"
      with step Cons.IH obtain pre it post where
        h: "its = pre @ it # post" "list_all (item_passes ps) pre" "price_item ps it = Inl e"
        by metis
      then have "a # its = (a # pre) @ it # post \<and> list_all (item_passes ps) (a # pre)
          \<and> price_item ps it = Inl e" using pa by simp
      then show "\<exists>pre it post. a # its = pre @ it # post \<and> list_all (item_passes ps) pre
        \<and> price_item ps it = Inl e" by blast
    next
      assume "\<exists>pre it post. a # its = pre @ it # post \<and> list_all (item_passes ps) pre
        \<and> price_item ps it = Inl e"
      then obtain pre it post where h: "a # its = pre @ it # post" "list_all (item_passes ps) pre"
        "price_item ps it = Inl e" by blast
      have "pre \<noteq> []" using h Inr by (cases pre) auto
      then obtain pre' where p': "pre = a # pre'" using h(1) by (cases pre) auto
      with h have "its = pre' @ it # post \<and> list_all (item_passes ps) pre'
         \<and> price_item ps it = Inl e" by simp
      then have "price_items ps its (cs + p * of_int (quantity a)) (san @ [s]) = Inl e"
        using Cons.IH by blast
      with step show "price_items ps (a # its) cs san = Inl e" by simp
    qed
  qed
qed

lemma ordered_qty_Cons:
  "ordered_qty j (s # san) =
     (if ObjectId (product_id s) = Some j then quantity s else 0) + ordered_qty j san"
  by (simp add: ordered_qty_def)

lemma ordered_qty_none:
  "\<forall>s\<in>set san. ObjectId (product_id s) \<noteq> Some j \<Longrightarrow> ordered_qty j san = 0"
  by (induction san) (auto simp: ordered_qty_Cons, simp add: ordered_qty_def)

lemma decrement_stock_find:
  "list_all (\<lambda>s. ObjectId (product_id s) \<noteq> None) san \<Longrightarrow>
     fst (decrement_stock san ps) = None \<and>
     find_one doc_id j (snd (decrement_stock san ps)) =
       map_option
         (\<lambda>d. if \<exists>s\<in>set san. ObjectId (product_id s) = Some j
              then d\<lparr>doc_stock_qty := Some (get_or (doc_stock_qty d) 0 - ordered_qty j san)\<rparr>
              else d)
         (find_one doc_id j ps)"
proof (induction san arbitrary: ps)
  case Nil
  then show ?case by (simp add: option.map_ident)
next
  case (Cons s san)
  then obtain i where i: "ObjectId (product_id s) = Some i" by auto
  let ?ps = "update_one_inc_stock_qty i (- quantity s) ps"
  from Cons.prems have "list_all (\<lambda>s. ObjectId (product_id s) \<noteq> None) san" by simp
  from Cons.IH[OF this, of ?ps] have
    ih1: "fst (decrement_stock san ?ps) = None" and
    ih2: "find_one doc_id j (snd (decrement_stock san ?ps)) =
       map_option
         (\<lambda>d. if \<exists>s\<in>set san. ObjectId (product_id s) = Some j
              then d\<lparr>doc_stock_qty := Some (get_or (doc_stock_qty d) 0 - ordered_qty j san)\<rparr>
              else d)
         (find_one doc_id j ?ps)" by auto
  have step: "decrement_stock (s # san) ps = decrement_stock san ?ps" using i by simp
  show ?case
  proof (cases "j = i")
    case False
    then show ?thesis using i ih1 ih2 step
      by (auto simp: find_one_update ordered_qty_Cons intro!: option.map_cong)
  next
    case True
    show ?thesis
    proof (cases "\<exists>s\<in>set san. ObjectId (product_id s) = Some j")
      case True
      with \<open>j = i\<close> i ih1 ih2 step show ?thesis
        by (cases "find_one doc_id i ps")
           (auto simp: find_one_update ordered_qty_Cons get_or_def)
    next
      case False
      then have "ordered_qty j san = 0" by (simp add: ordered_qty_none)
      with False \<open>j = i\<close> i ih1 ih2 step show ?thesis
        by (cases "find_one doc_id i ps")
           (auto simp: find_one_update ordered_qty_Cons get_or_def)
    qed
  qed
qed

lemma create_order_Inr:
  assumes "create_order e db nid ord = (Inr r, db')"
  shows "\<exists>san. items ord \<noteq> []
      \<and> price_items (product_coll db) (items ord) 0 [] = Inr (line_total san, san)
      \<and> list_all2 (\<lambda>it s. price_item (product_coll db) it = Inr (price s, s)) (items ord) san
      \<and> Order_schema e
           \<lparr>customer_name = customer_name ord, customer_email = customer_email ord,
            customer_address = customer_address ord, items = san,
            subtotal = round2 (line_total san), shipping = round2 (shipping ord),
            total_due = round2 (line_total san + shipping ord), status = ''processing''\<rparr>
      \<and> find_one fst nid (order_coll db) = None
      \<and> fst (decrement_stock san (product_coll db)) = None
      \<and> db' = \<lparr>product_coll = snd (decrement_stock san (product_coll db)),
               order_coll = order_coll db @
                 [(nid, \<lparr>customer_name = customer_name ord, customer_email = customer_email ord,
                     customer_address = customer_address ord, items = san,
                     subtotal = round2 (line_total san), shipping = round2 (shipping ord),
                     total_due = round2 (line_total san + shipping ord),
                     status = ''processing''\<rparr>)]\<rparr>"
proof -
  from assms have ne: "items ord \<noteq> []"
    by (auto simp: create_order_def split: if_splits)
  from assms ne obtain cs san where
    pi: "price_items (product_coll db) (items ord) 0 [] = Inr (cs, san)"
    by (cases "price_items (product_coll db) (items ord) 0 []")
       (auto simp: create_order_def)
  from price_items_Inr[OF pi] have cs: "cs = line_total san"
    and rel: "list_all2 (\<lambda>it s. price_item (product_coll db) it = Inr (price s, s)) (items ord) san"
    by auto
  have sh: "(if shipping ord = 0 then 0 else shipping ord) = shipping ord" by simp
  show ?thesis
    using assms ne pi cs rel
    by (auto simp: create_order_def Let_def sh create_document_def
             split: if_splits sum.splits option.splits)
qed

section \<open>Claims\<close>

text \<open>
  C5: an order request whose item list is empty fails with \<open>EmptyOrder\<close> whatever the
  store, the identifier on offer and the rest of the request are, and the store after the
  call is the store before it: no order document is written and no stock is decremented.
\<close>

theorem empty_order_rejected:
  "items ord = [] \<Longrightarrow> create_order email_ok db new_id ord = (Inl EmptyOrder, db)"
  by (simp add: create_order_def EmptyOrder_def)

theorem empty_order_rejected_witness:
  "create_order any_email (shop tee) order_id1 (request [] 5) = (Inl EmptyOrder, shop tee)"
  using empty_order_rejected [of "request [] 5" any_email "shop tee" order_id1]
  by (simp add: request_def)

text \<open>
  C1, as stated: the persisted order has \<open>total = round(subtotal + shipping, 2)\<close> for the
  rounded \<open>subtotal\<close> and \<open>shipping\<close> it stores.  It fails: a product priced 0.004, ordered
  once with a shipping cost of 0.004, is stored with subtotal 0.00, shipping 0.00 and
  total 0.01, since the total is rounded from the unrounded amounts.
\<close>

theorem stored_total_counterexample:
  "create_order any_email (shop mill) order_id1 (request [line tee_id 1] (4 / 1000))
     = (Inr (Some (order_id1, mill_order)),
        \<lparr>product_coll = [mill\<lparr>doc_stock_qty := Some 99\<rparr>],
         order_coll = [(order_id1, mill_order)]\<rparr>)
   \<and> total_due mill_order = 1 / 100
   \<and> round2 (subtotal mill_order + shipping mill_order) = 0"
  by code_simp

text \<open>
  C1, amended: for every accepted order the persisted order has
  \<open>subtotal = round(S, 2)\<close>, \<open>shipping = round(s, 2)\<close> and \<open>total = round(S + s, 2)\<close>, where
  \<open>S\<close> is the unrounded sum of unit price times quantity over its line items and \<open>s\<close> the
  shipping cost of the request; when rounding changes neither \<open>S\<close> nor \<open>s\<close>, the total is
  \<open>round(subtotal + shipping, 2)\<close> of the stored amounts.
\<close>

theorem order_totals:
  assumes "create_order email_ok db new_id ord = (Inr r, db')"
  shows "\<exists>po. order_coll db' = order_coll db @ [(new_id, po)]
      \<and> subtotal po = round2 (line_total (items po))
      \<and> shipping po = round2 (shipping ord)
      \<and> total_due po = round2 (line_total (items po) + shipping ord)
      \<and> (round2 (line_total (items po)) = line_total (items po)
           \<and> round2 (shipping ord) = shipping ord
         \<longrightarrow> total_due po = round2 (subtotal po + shipping po))"
proof -
  from create_order_Inr[OF assms] obtain san where
    db': "db' = \<lparr>product_coll = snd (decrement_stock san (product_coll db)),
               order_coll = order_coll db @
                 [(new_id, \<lparr>customer_name = customer_name ord, customer_email = customer_email ord,
                     customer_address = customer_address ord, items = san,
                     subtotal = round2 (line_total san), shipping = round2 (shipping ord),
                     total_due = round2 (line_total san + shipping ord),
                     status = ''processing''\<rparr>)]\<rparr>"
    by blast
  show ?thesis unfolding db' by simp
qed

theorem order_totals_witness:
  "create_order any_email (shop tee) order_id1 (request [line tee_id 3] 5)
     = (Inr (Some (order_id1, tee_order)),
        \<lparr>product_coll = [tee\<lparr>doc_stock_qty := Some 97\<rparr>],
         order_coll = [(order_id1, tee_order)]\<rparr>)
   \<and> subtotal tee_order = round2 (line_total (items tee_order))
   \<and> total_due tee_order = round2 (line_total (items tee_order) + 5)
   \<and> total_due tee_order = round2 (subtotal tee_order + shipping tee_order)
   \<and> subtotal tee_order = 5997 / 100 \<and> total_due tee_order = 6497 / 100"
proof -
  have run: "create_order any_email (shop tee) order_id1 (request [line tee_id 3] 5)
     = (Inr (Some (order_id1, tee_order)),
        \<lparr>product_coll = [tee\<lparr>doc_stock_qty := Some 97\<rparr>],
         order_coll = [(order_id1, tee_order)]\<rparr>)"
    by code_simp
  from order_totals[OF run] obtain po where
    po: "[(order_id1, tee_order)] = order_coll (shop tee) @ [(order_id1, po)]"
      "subtotal po = round2 (line_total (items po))"
      "total_due po = round2 (line_total (items po) + shipping (request [line tee_id 3] 5))"
      "round2 (line_total (items po)) = line_total (items po)
           \<and> round2 (shipping (request [line tee_id 3] 5)) = shipping (request [line tee_id 3] 5)
         \<longrightarrow> total_due po = round2 (subtotal po + shipping po)"
    by auto
  from po(1) have eq: "po = tee_order" by (simp add: shop_def)
  have sh: "shipping (request [line tee_id 3] 5) = 5" by (simp add: request_def)
  have unrounded: "round2 (line_total (items tee_order)) = line_total (items tee_order)"
       "round2 5 = 5"
    by code_simp+
  have c1: "subtotal tee_order = round2 (line_total (items tee_order))"
    using po(2) eq by simp
  have c2: "total_due tee_order = round2 (line_total (items tee_order) + 5)"
    using po(3) eq sh by simp
  have c3: "total_due tee_order = round2 (subtotal tee_order + shipping tee_order)"
    using po(4) unrounded eq sh by simp
  have c4: "subtotal tee_order = 5997 / 100" "total_due tee_order = 6497 / 100"
    by (simp_all add: tee_order_def placed_def)
  from run c1 c2 c3 c4 show ?thesis by blast
qed

lemma sanitized_same_product:
  assumes "price_item ps it = Inr (p, s)"
  shows "ObjectId (product_id s) = ObjectId (product_id it) \<and> quantity s = quantity it
         \<and> ObjectId (product_id it) \<noteq> None"
proof -
  from price_item_Inr[OF assms] obtain i d where
    h: "ObjectId (product_id it) = Some i" "find_one doc_id i ps = Some d" "s = snapshot d it"
    by blast
  from find_one_ident[OF h(2)] have "doc_id d = i" .
  with h(3) have "product_id s = str_oid i" "quantity s = quantity it"
    by (simp_all add: snapshot_def)
  with ObjectId_str_oid[OF h(1)] h(1) show ?thesis by simp
qed

lemma sanitized_items_same_products:
  assumes "list_all2 (\<lambda>it s. price_item ps it = Inr (price s, s)) its san"
  shows "list_all (\<lambda>s. ObjectId (product_id s) \<noteq> None) san
       \<and> ordered_qty i san = ordered_qty i its
       \<and> ((\<exists>s\<in>set san. ObjectId (product_id s) = Some i)
            \<longleftrightarrow> (\<exists>it\<in>set its. ObjectId (product_id it) = Some i))"
  using assms
proof (induction its san rule: list_all2_induct)
  case Nil
  then show ?case by (simp add: ordered_qty_def)
next
  case (Cons it its s san)
  from sanitized_same_product[OF Cons.hyps(1)] Cons.IH show ?case
    by (simp add: ordered_qty_Cons)
qed

text \<open>
  C2, as stated: after a successful order in which an item orders quantity \<open>Q\<close> of a product
  with stock \<open>S\<close>, \<open>Q \<le> S\<close>, the product's stock is \<open>S - Q\<close>.  It fails when the request has
  more than one line for the product: with a stock of 100, lines of 2 and of 3 leave 95,
  not 98.
\<close>

theorem stock_per_line_counterexample:
  "find_one doc_id (Oid tee_id) (product_coll (shop tee)) = Some tee
   \<and> doc_stock_qty tee = Some 100
   \<and> quantity (line tee_id 2) = 2
   \<and> create_order any_email (shop tee) order_id1 (request [line tee_id 2, line tee_id 3] 0)
       = (Inr (Some (order_id1, pair_order)),
          \<lparr>product_coll = [tee\<lparr>doc_stock_qty := Some 95\<rparr>],
           order_coll = [(order_id1, pair_order)]\<rparr>)"
  by code_simp

text \<open>
  C2, amended: after a successful order, a product that a requested item refers to had
  at least that item's quantity in stock.  When the requested items that refer to it ask
  together for no more than its stock, its \<open>stock_qty\<close> is the old one less the sum of
  their quantities, and not negative; that is \<open>S - Q\<close> when the item is the only one
  referring to the product.  Nothing else in the product document changes.
\<close>

theorem stock_after_order:
  assumes "create_order email_ok db new_id ord = (Inr r, db')"
    and "it \<in> set (items ord)"
    and "ObjectId (product_id it) = Some i"
  shows "\<exists>p. find_one doc_id i (product_coll db) = Some p
      \<and> quantity it \<le> get_or (doc_stock_qty p) 0
      \<and> (ordered_qty i (items ord) \<le> get_or (doc_stock_qty p) 0
           \<longrightarrow> find_one doc_id i (product_coll db')
                 = Some (p\<lparr>doc_stock_qty :=
                             Some (get_or (doc_stock_qty p) 0 - ordered_qty i (items ord))\<rparr>)
               \<and> 0 \<le> get_or (doc_stock_qty p) 0 - ordered_qty i (items ord))
      \<and> (filter (\<lambda>x. ObjectId (product_id x) = Some i) (items ord) = [it]
           \<longrightarrow> find_one doc_id i (product_coll db')
                = Some (p\<lparr>doc_stock_qty := Some (get_or (doc_stock_qty p) 0 - quantity it)\<rparr>))"
proof -
  from create_order_Inr[OF assms(1)] obtain san where
    rel: "list_all2 (\<lambda>it s. price_item (product_coll db) it = Inr (price s, s)) (items ord) san"
    and db': "product_coll db' = snd (decrement_stock san (product_coll db))"
    by auto
  from sanitized_items_same_products[OF rel, of i] assms(2,3) have
    ok: "list_all (\<lambda>s. ObjectId (product_id s) \<noteq> None) san"
    and qty: "ordered_qty i san = ordered_qty i (items ord)"
    and mem: "\<exists>s\<in>set san. ObjectId (product_id s) = Some i"
    by auto
  from rel assms(2) obtain s where "price_item (product_coll db) it = Inr (price s, s)"
    by (auto simp: list_all2_conv_all_nth in_set_conv_nth)
  from price_item_Inr[OF this] assms(3) obtain p where
    p: "find_one doc_id i (product_coll db) = Some p"
       "quantity it \<le> get_or (doc_stock_qty p) 0"
    by auto
  from decrement_stock_find[OF ok, where j = i and ps = "product_coll db"] mem p(1) qty db' have
    after: "find_one doc_id i (product_coll db')
          = Some (p\<lparr>doc_stock_qty :=
                      Some (get_or (doc_stock_qty p) 0 - ordered_qty i (items ord))\<rparr>)"
    by simp
  have single: "filter (\<lambda>x. ObjectId (product_id x) = Some i) (items ord) = [it]
                  \<Longrightarrow> ordered_qty i (items ord) = quantity it"
    by (simp add: ordered_qty_def)
  from p after single show ?thesis by auto
qed

theorem stock_after_order_witness:
  "find_one doc_id (Oid tee_id) (product_coll (shop tee)) = Some tee
   \<and> find_one doc_id (Oid tee_id)
        (product_coll (snd (create_order any_email (shop tee) order_id1
                              (request [line tee_id 3] 5))))
      = Some (tee\<lparr>doc_stock_qty := Some 97\<rparr>)
   \<and> ordered_qty (Oid tee_id) (items (request [line tee_id 2, line tee_id 3] 0)) = 5
   \<and> find_one doc_id (Oid tee_id)
        (product_coll (snd (create_order any_email (shop tee) order_id1
                              (request [line tee_id 2, line tee_id 3] 0))))
      = Some (tee\<lparr>doc_stock_qty := Some 95\<rparr>)"
proof -
  let ?ord = "request [line tee_id 3] 5"
  let ?two = "request [line tee_id 2, line tee_id 3] 0"
  have run: "create_order any_email (shop tee) order_id1 ?ord
     = (Inr (Some (order_id1, tee_order)),
        \<lparr>product_coll = [tee\<lparr>doc_stock_qty := Some 97\<rparr>],
         order_coll = [(order_id1, tee_order)]\<rparr>)"
    by code_simp
  have a: "line tee_id 3 \<in> set (items ?ord)" by (simp add: request_def)
  have b: "ObjectId (product_id (line tee_id 3)) = Some (Oid tee_id)" by code_simp
  have c: "find_one doc_id (Oid tee_id) (product_coll (shop tee)) = Some tee" by code_simp
  have d: "filter (\<lambda>x. ObjectId (product_id x) = Some (Oid tee_id)) (items ?ord) = [line tee_id 3]"
    by (simp add: request_def b)
  have e: "tee\<lparr>doc_stock_qty := Some (get_or (doc_stock_qty tee) 0 - quantity (line tee_id 3))\<rparr>
             = tee\<lparr>doc_stock_qty := Some 97\<rparr>"
    by (simp add: tee_def line_def get_or_def)
  from stock_after_order[OF run a b] c d e run have one:
    "find_one doc_id (Oid tee_id)
        (product_coll (snd (create_order any_email (shop tee) order_id1 ?ord)))
      = Some (tee\<lparr>doc_stock_qty := Some 97\<rparr>)"
    by auto
  have run2: "create_order any_email (shop tee) order_id1 ?two
       = (Inr (Some (order_id1, pair_order)),
          \<lparr>product_coll = [tee\<lparr>doc_stock_qty := Some 95\<rparr>],
           order_coll = [(order_id1, pair_order)]\<rparr>)"
    by code_simp
  have a2: "line tee_id 2 \<in> set (items ?two)" by (simp add: request_def)
  have b2: "ObjectId (product_id (line tee_id 2)) = Some (Oid tee_id)" by code_simp
  have q: "ordered_qty (Oid tee_id) (items ?two) = 5" by code_simp
  have s: "get_or (doc_stock_qty tee) 0 = 100" by (simp add: tee_def get_or_def)
  from stock_after_order[OF run2 a2 b2] c q s run2 have two:
    "find_one doc_id (Oid tee_id)
        (product_coll (snd (create_order any_email (shop tee) order_id1 ?two)))
      = Some (tee\<lparr>doc_stock_qty := Some 95\<rparr>)"
    by auto
  from c one q two show ?thesis by blast
qed

text \<open>
  The stock check compares each line with the stock before the order, so two lines for
  one product pass when each is within the stock and together they are not: two lines of
  60 against a stock of 100 are accepted and leave a \<open>stock_qty\<close> of -20, which the
  \<open>Product\<close> schema (\<open>stock_qty: int = Field(50, ge=0)\<close>) excludes.
\<close>

lemma oversold_by_two_lines:
  "create_order any_email (shop tee) order_id1 (request [line tee_id 60, line tee_id 60] 0)
     = (Inr (Some (order_id1, oversold_order)),
        \<lparr>product_coll = [tee\<lparr>doc_stock_qty := Some (- 20)\<rparr>],
         order_coll = [(order_id1, oversold_order)]\<rparr>)"
  by code_simp

lemma price_item_insufficient:
  "price_item ps it = Inl (InsufficientStock t) \<longleftrightarrow>
     (\<exists>i p. ObjectId (product_id it) = Some i \<and> find_one doc_id i ps = Some p
        \<and> (\<not> get_or (doc_in_stock p) True \<or> get_or (doc_stock_qty p) 0 < quantity it)
        \<and> t = get_or (doc_title p) ''product'')"
  by (auto simp: price_item_def InsufficientStock_def Let_def split: option.splits)

lemma create_order_validation_error:
  assumes "items ord \<noteq> []"
    and "price_items (product_coll db) (items ord) 0 [] = Inl e"
  shows "create_order email_ok db new_id ord = (Inl e, db)"
  using assms by (simp add: create_order_def)

lemma decrement_stock_error:
  "fst (decrement_stock san ps) = Some e \<Longrightarrow> e = InvalidId"
  by (induction san arbitrary: ps) (auto split: option.splits)

lemma create_order_HTTPException:
  assumes "fst (create_order email_ok db new_id ord) = Inl (HTTPException c m)"
  shows "snd (create_order email_ok db new_id ord) = db
       \<and> (if items ord = [] then HTTPException c m = EmptyOrder
           else price_items (product_coll db) (items ord) 0 [] = Inl (HTTPException c m))"
  using assms
  by (auto simp: create_order_def Let_def create_document_def EmptyOrder_def
           split: if_splits sum.splits option.splits dest: decrement_stock_error)

text \<open>
  C3, as stated: for every requested item, the order fails with \<open>InsufficientStock\<close> if and
  only if the item's product is out of stock or has less stock than the item asks for.
  It fails for an item that the loop never reaches: a request for an unknown product
  followed by 101 units of a product with a stock of 100 fails with \<open>ProductNotFound\<close>.
\<close>

theorem insufficient_stock_first_counterexample:
  "ObjectId (product_id (line tee_id 101)) = Some (Oid tee_id)
   \<and> find_one doc_id (Oid tee_id) (product_coll (shop tee)) = Some tee
   \<and> get_or (doc_stock_qty tee) 0 < quantity (line tee_id 101)
   \<and> create_order any_email (shop tee) order_id1
        (request [line absent_id 1, line tee_id 101] 0)
       = (Inl (ProductNotFound absent_id), shop tee)
   \<and> ProductNotFound absent_id \<noteq> InsufficientStock (get_or (doc_title tee) ''product'')"
  by code_simp

text \<open>
  C3, amended: the order fails with \<open>InsufficientStock\<close> naming the title \<open>t\<close> if and only
  if the first requested item that does not pass validation refers, by a well-formed
  identifier, to an existing product with title \<open>t\<close> (\<open>product\<close> when it has none) whose
  \<open>in_stock\<close> is false or whose \<open>stock_qty\<close> is less than the requested quantity (an absent
  \<open>in_stock\<close> counting as true and an absent \<open>stock_qty\<close> as 0); on that failure the store,
  and so every product's \<open>stock_qty\<close>, is unchanged.
\<close>

theorem insufficient_stock_iff:
  "(fst (create_order email_ok db new_id ord) = Inl (InsufficientStock t) \<longleftrightarrow>
      (\<exists>pre it post i p.
          items ord = pre @ it # post
        \<and> list_all (item_passes (product_coll db)) pre
        \<and> ObjectId (product_id it) = Some i
        \<and> find_one doc_id i (product_coll db) = Some p
        \<and> (\<not> get_or (doc_in_stock p) True \<or> get_or (doc_stock_qty p) 0 < quantity it)
        \<and> t = get_or (doc_title p) ''product''))
   \<and> (fst (create_order email_ok db new_id ord) = Inl (InsufficientStock t)
        \<longrightarrow> snd (create_order email_ok db new_id ord) = db)"
proof -
  let ?run = "create_order email_ok db new_id ord"
  let ?ps = "product_coll db"
  have is_http: "InsufficientStock t = HTTPException 400 (''Insufficient stock for '' @ t)"
    by (simp add: InsufficientStock_def)
  have not_empty: "InsufficientStock t \<noteq> EmptyOrder"
    by (simp add: InsufficientStock_def EmptyOrder_def)
  have unchanged: "snd ?run = db" if "fst ?run = Inl (InsufficientStock t)"
    using create_order_HTTPException[OF that[unfolded is_http]] by simp
  have "fst ?run = Inl (InsufficientStock t) \<longleftrightarrow>
          items ord \<noteq> [] \<and> price_items ?ps (items ord) 0 [] = Inl (InsufficientStock t)"
  proof
    assume a: "fst ?run = Inl (InsufficientStock t)"
    from create_order_HTTPException[OF a[unfolded is_http]] not_empty
    show "items ord \<noteq> [] \<and> price_items ?ps (items ord) 0 [] = Inl (InsufficientStock t)"
      by (auto simp: is_http split: if_splits)
  next
    assume "items ord \<noteq> [] \<and> price_items ?ps (items ord) 0 [] = Inl (InsufficientStock t)"
    then show "fst ?run = Inl (InsufficientStock t)"
      by (simp add: create_order_validation_error)
  qed
  also have "\<dots> \<longleftrightarrow> (\<exists>pre it post. items ord = pre @ it # post
        \<and> list_all (item_passes ?ps) pre \<and> price_item ?ps it = Inl (InsufficientStock t))"
    by (auto simp: price_items_Inl)
  also have "\<dots> \<longleftrightarrow> (\<exists>pre it post i p.
          items ord = pre @ it # post
        \<and> list_all (item_passes ?ps) pre
        \<and> ObjectId (product_id it) = Some i
        \<and> find_one doc_id i ?ps = Some p
        \<and> (\<not> get_or (doc_in_stock p) True \<or> get_or (doc_stock_qty p) 0 < quantity it)
        \<and> t = get_or (doc_title p) ''product'')"
    unfolding price_item_insufficient by blast
  finally show ?thesis using unchanged by blast
qed

theorem insufficient_stock_iff_witness:
  "create_order any_email (shop sold_out) order_id1 (request [line tee_id 1] 0)
     = (Inl (InsufficientStock ''Classic Tee''), shop sold_out)"
proof -
  let ?ord = "request [line tee_id 1] 0"
  let ?run = "create_order any_email (shop sold_out) order_id1 ?ord"
  have "items ?ord = [] @ line tee_id 1 # []
        \<and> list_all (item_passes (product_coll (shop sold_out))) []
        \<and> ObjectId (product_id (line tee_id 1)) = Some (Oid tee_id)
        \<and> find_one doc_id (Oid tee_id) (product_coll (shop sold_out)) = Some sold_out
        \<and> (\<not> get_or (doc_in_stock sold_out) True
             \<or> get_or (doc_stock_qty sold_out) 0 < quantity (line tee_id 1))
        \<and> ''Classic Tee'' = get_or (doc_title sold_out) ''product''"
    by code_simp
  then have ex: "\<exists>pre it post i p.
          items ?ord = pre @ it # post
        \<and> list_all (item_passes (product_coll (shop sold_out))) pre
        \<and> ObjectId (product_id it) = Some i
        \<and> find_one doc_id i (product_coll (shop sold_out)) = Some p
        \<and> (\<not> get_or (doc_in_stock p) True \<or> get_or (doc_stock_qty p) 0 < quantity it)
        \<and> ''Classic Tee'' = get_or (doc_title p) ''product''"
    by blast
  from insufficient_stock_iff[of any_email "shop sold_out" order_id1 ?ord "''Classic Tee''"] ex
  have "fst ?run = Inl (InsufficientStock ''Classic Tee'')" "snd ?run = shop sold_out"
    by blast+
  then show ?thesis by (simp add: prod_eq_iff)
qed

lemma price_item_not_found:
  "ObjectId (product_id it) = Some i \<Longrightarrow> find_one doc_id i ps = None
     \<Longrightarrow> price_item ps it = Inl (ProductNotFound (product_id it))"
  by (simp add: price_item_def ProductNotFound_def)

lemma price_item_invalid:
  "ObjectId (product_id it) = None
     \<Longrightarrow> price_item ps it = Inl (InvalidIdentifier (product_id it))"
  by (simp add: price_item_def InvalidIdentifier_def)

lemma price_items_all_pass:
  "price_items ps its cs san = Inr r \<Longrightarrow> it \<in> set its \<Longrightarrow> \<exists>q. price_item ps it = Inr q"
proof -
  assume a: "price_items ps its cs san = Inr r" and b: "it \<in> set its"
  obtain cs' san' where "r = (cs', san')" by (cases r)
  with price_items_Inr a obtain new where
    "list_all2 (\<lambda>it s. price_item ps it = Inr (price s, s)) its new" by blast
  with b show ?thesis by (auto simp: list_all2_conv_all_nth in_set_conv_nth)
qed

lemma create_order_first_failure:
  assumes "items ord = pre @ it # post"
    and "list_all (item_passes (product_coll db)) pre"
    and "price_item (product_coll db) it = Inl e"
  shows "create_order email_ok db new_id ord = (Inl e, db)"
proof -
  from assms have "price_items (product_coll db) (items ord) 0 [] = Inl e"
    unfolding price_items_Inl by blast
  moreover from assms(1) have "items ord \<noteq> []" by simp
  ultimately show ?thesis by (rule create_order_validation_error[rotated])
qed

text \<open>
  C6, as stated: every order request that contains a well-formed identifier of no product
  fails with \<open>ProductNotFound\<close> naming that identifier.  It fails when an earlier item
  raises first: a malformed identifier before the unknown one gives \<open>InvalidIdentifier\<close>.
\<close>

theorem not_found_behind_invalid_counterexample:
  "ObjectId absent_id = Some (Oid absent_id)
   \<and> find_one doc_id (Oid absent_id) (product_coll (shop tee)) = None
   \<and> create_order any_email (shop tee) order_id1
        (request [line ''not-an-id'' 1, line absent_id 1] 0)
       = (Inl (InvalidIdentifier ''not-an-id''), shop tee)
   \<and> InvalidIdentifier ''not-an-id'' \<noteq> ProductNotFound absent_id"
  by code_simp

text \<open>
  C6, amended: every order request that contains a well-formed identifier of no product
  fails, and the store is as it was: no order document is created and no stock changes.
  The error is the one raised for the first requested item that does not pass
  validation; it is \<open>ProductNotFound\<close> naming that identifier when every item before it
  passes.
\<close>

theorem unknown_product_rejected:
  assumes "it \<in> set (items ord)"
    and "ObjectId (product_id it) = Some i"
    and "find_one doc_id i (product_coll db) = None"
  shows "(\<exists>pre failing post e.
            items ord = pre @ failing # post
          \<and> list_all (item_passes (product_coll db)) pre
          \<and> price_item (product_coll db) failing = Inl e
          \<and> create_order email_ok db new_id ord = (Inl e, db))
       \<and> (\<forall>pre post. items ord = pre @ it # post
              \<and> list_all (item_passes (product_coll db)) pre
            \<longrightarrow> create_order email_ok db new_id ord
                  = (Inl (ProductNotFound (product_id it)), db))"
proof -
  let ?ps = "product_coll db"
  have nf: "price_item ?ps it = Inl (ProductNotFound (product_id it))"
    using assms(2,3) by (rule price_item_not_found)
  from assms(1) have ne: "items ord \<noteq> []" by auto
  obtain e where e: "price_items ?ps (items ord) 0 [] = Inl e"
  proof (cases "price_items ?ps (items ord) 0 []")
    case (Inl e)
    then show ?thesis using that by blast
  next
    case (Inr r)
    from price_items_all_pass[OF Inr assms(1)] nf show ?thesis by simp
  qed
  then obtain pre failing post where
    split: "items ord = pre @ failing # post" "list_all (item_passes ?ps) pre"
           "price_item ?ps failing = Inl e"
    unfolding price_items_Inl by blast
  from e ne have "create_order email_ok db new_id ord = (Inl e, db)"
    by (simp add: create_order_validation_error)
  with split have first: "\<exists>pre failing post e.
            items ord = pre @ failing # post
          \<and> list_all (item_passes ?ps) pre
          \<and> price_item ?ps failing = Inl e
          \<and> create_order email_ok db new_id ord = (Inl e, db)"
    by blast
  from nf have "\<forall>pre post. items ord = pre @ it # post
              \<and> list_all (item_passes ?ps) pre
            \<longrightarrow> create_order email_ok db new_id ord
                  = (Inl (ProductNotFound (product_id it)), db)"
    by (auto intro: create_order_first_failure)
  with first show ?thesis by (rule conjI)
qed

theorem unknown_product_rejected_witness:
  "create_order any_email (shop tee) order_id1 (request [line tee_id 1, line absent_id 2] 0)
     = (Inl (ProductNotFound absent_id), shop tee)"
proof -
  let ?ord = "request [line tee_id 1, line absent_id 2] 0"
  have a: "line absent_id 2 \<in> set (items ?ord)" by (simp add: request_def)
  have b: "ObjectId (product_id (line absent_id 2)) = Some (Oid absent_id)" by code_simp
  have c: "find_one doc_id (Oid absent_id) (product_coll (shop tee)) = None" by code_simp
  have d: "items ?ord = [line tee_id 1] @ line absent_id 2 # []
           \<and> list_all (item_passes (product_coll (shop tee))) [line tee_id 1]"
    by code_simp
  have e: "product_id (line absent_id 2) = absent_id" by (simp add: line_def)
  from unknown_product_rejected[OF a b c, of any_email order_id1]
  have "\<forall>pre post. items ?ord = pre @ line absent_id 2 # post
              \<and> list_all (item_passes (product_coll (shop tee))) pre
            \<longrightarrow> create_order any_email (shop tee) order_id1 ?ord
                  = (Inl (ProductNotFound (product_id (line absent_id 2))), shop tee)"
    by (rule conjunct2)
  from this[rule_format, of "[line tee_id 1]" "[]"] d e show ?thesis by simp
qed

text \<open>
  C7: an identifier string handed to the product lookup, by \<open>get_product\<close> or for an item
  that the loop of \<open>create_order\<close> reaches, fails with the client error for an invalid
  identifier (status 400, not 404) when it is malformed, and with the not-found error
  (status 404) when it is well formed and matches no product.  The lookup changes
  nothing: \<open>get_product\<close> returns the store as it was, and so does \<open>create_order\<close> on
  either error.
\<close>

theorem lookup_errors:
  "(ObjectId pid = None
      \<longrightarrow> get_product db pid = (Inl (HTTPException 400 ''Invalid product id''), db))
   \<and> (\<forall>i. ObjectId pid = Some i \<and> find_one doc_id i (product_coll db) = None
      \<longrightarrow> get_product db pid = (Inl (HTTPException 404 ''Product not found''), db))
   \<and> snd (get_product db pid) = db
   \<and> (\<forall>pre it post.
         items ord = pre @ it # post \<and> list_all (item_passes (product_coll db)) pre
         \<and> product_id it = pid
       \<longrightarrow> (ObjectId pid = None
              \<longrightarrow> create_order email_ok db new_id ord = (Inl (InvalidIdentifier pid), db))
         \<and> (\<forall>i. ObjectId pid = Some i \<and> find_one doc_id i (product_coll db) = None
              \<longrightarrow> create_order email_ok db new_id ord = (Inl (ProductNotFound pid), db)))
   \<and> InvalidIdentifier pid \<noteq> ProductNotFound pid"
proof -
  have g1: "ObjectId pid = None
      \<longrightarrow> get_product db pid = (Inl (HTTPException 400 ''Invalid product id''), db)"
    by (simp add: get_product_def)
  have g2: "\<forall>i. ObjectId pid = Some i \<and> find_one doc_id i (product_coll db) = None
      \<longrightarrow> get_product db pid = (Inl (HTTPException 404 ''Product not found''), db)"
    by (simp add: get_product_def)
  have g3: "snd (get_product db pid) = db"
    by (simp add: get_product_def split: option.splits)
  have o: "\<forall>pre it post.
         items ord = pre @ it # post \<and> list_all (item_passes (product_coll db)) pre
         \<and> product_id it = pid
       \<longrightarrow> (ObjectId pid = None
              \<longrightarrow> create_order email_ok db new_id ord = (Inl (InvalidIdentifier pid), db))
         \<and> (\<forall>i. ObjectId pid = Some i \<and> find_one doc_id i (product_coll db) = None
              \<longrightarrow> create_order email_ok db new_id ord = (Inl (ProductNotFound pid), db))"
    by (auto intro!: create_order_first_failure price_item_invalid price_item_not_found)
  have d: "InvalidIdentifier pid \<noteq> ProductNotFound pid"
    by (simp add: InvalidIdentifier_def ProductNotFound_def)
  from g1 g2 g3 o d show ?thesis by blast
qed

theorem lookup_errors_witness:
  "get_product (shop tee) ''not-an-id''
     = (Inl (HTTPException 400 ''Invalid product id''), shop tee)
   \<and> create_order any_email (shop tee) order_id1 (request [line tee_id 1, line ''not-an-id'' 1] 0)
     = (Inl (InvalidIdentifier ''not-an-id''), shop tee)"
proof -
  let ?ord = "request [line tee_id 1, line ''not-an-id'' 1] 0"
  have a: "ObjectId ''not-an-id'' = None" by code_simp
  have b: "items ?ord = [line tee_id 1] @ line ''not-an-id'' 1 # []
           \<and> list_all (item_passes (product_coll (shop tee))) [line tee_id 1]
           \<and> product_id (line ''not-an-id'' 1) = ''not-an-id''"
    by code_simp
  from lookup_errors[of "''not-an-id''" "shop tee" ?ord any_email order_id1] a b
  show ?thesis by metis
qed

lemma price_item_cong:
  "product_id a = product_id b \<Longrightarrow> quantity a = quantity b
     \<Longrightarrow> price_item ps a = price_item ps b"
  by (simp add: price_item_def split: option.splits)

lemma price_items_cong:
  "map (\<lambda>it. (product_id it, quantity it)) xs = map (\<lambda>it. (product_id it, quantity it)) ys
     \<Longrightarrow> price_items ps xs cs san = price_items ps ys cs san"
proof (induction xs arbitrary: ys cs san)
  case Nil
  then show ?case by simp
next
  case (Cons x xs)
  then obtain y ys' where ys: "ys = y # ys'" by (cases ys) auto
  with Cons.prems have h: "product_id x = product_id y" "quantity x = quantity y"
    "map (\<lambda>it. (product_id it, quantity it)) xs = map (\<lambda>it. (product_id it, quantity it)) ys'"
    by auto
  from price_item_cong[OF h(1,2)] Cons.IH[OF h(3)] h(2) show ?case
    unfolding ys by (simp split: sum.splits)
qed

lemma create_order_item_details:
  assumes "same_but_item_details a b"
  shows "create_order email_ok db new_id a = create_order email_ok db new_id b"
proof -
  from assms have e: "a\<lparr>items := []\<rparr> = b\<lparr>items := []\<rparr>"
    and m: "map (\<lambda>it. (product_id it, quantity it)) (items a)
              = map (\<lambda>it. (product_id it, quantity it)) (items b)"
    by (simp_all add: same_but_item_details_def)
  from e have f: "customer_name a = customer_name b" "customer_email a = customer_email b"
    "customer_address a = customer_address b" "shipping a = shipping b"
    by (cases a; cases b; simp)+
  from m have n: "items a = [] \<longleftrightarrow> items b = []"
    by (metis map_is_Nil_conv)
  from price_items_cong[OF m] f n show ?thesis
    by (simp add: create_order_def Let_def split: sum.splits)
qed

text \<open>
  C4: in every accepted order, each persisted line item carries the identifier, title, price
  and image of the product its requested item refers to, as the product record is when
  the request is validated (\<open>Product\<close>, 0 and no image for a field the record lacks), and
  the requested quantity.  Two requests that differ only in the price, title and image
  the client supplied for their items have the same outcome: the same sanitized items,
  the same totals, the same store afterwards.
\<close>

theorem line_items_from_catalog:
  "(\<forall>r db'. create_order email_ok db new_id ord = (Inr r, db') \<longrightarrow>
      (\<exists>po. order_coll db' = order_coll db @ [(new_id, po)]
         \<and> list_all2
             (\<lambda>it s. \<exists>i p. ObjectId (product_id it) = Some i
                  \<and> find_one doc_id i (product_coll db) = Some p
                  \<and> product_id s = str_oid i
                  \<and> title s = get_or (doc_title p) ''Product''
                  \<and> price s = get_or (doc_price p) 0
                  \<and> image_url s = doc_image p
                  \<and> quantity s = quantity it)
             (items ord) (items po)))
   \<and> (\<forall>ord'. same_but_item_details ord ord' \<longrightarrow>
         create_order email_ok db new_id ord' = create_order email_ok db new_id ord)"
proof -
  have snap: "\<exists>i p. ObjectId (product_id it) = Some i
                  \<and> find_one doc_id i (product_coll db) = Some p
                  \<and> product_id s = str_oid i
                  \<and> title s = get_or (doc_title p) ''Product''
                  \<and> price s = get_or (doc_price p) 0
                  \<and> image_url s = doc_image p
                  \<and> quantity s = quantity it"
    if "price_item (product_coll db) it = Inr (price s, s)" for it s
  proof -
    from price_item_Inr[OF that] obtain i d where
      h: "ObjectId (product_id it) = Some i" "find_one doc_id i (product_coll db) = Some d"
         "s = snapshot d it" by blast
    from find_one_ident[OF h(2)] have "doc_id d = i" .
    with h show ?thesis by (auto simp: snapshot_def)
  qed
  have first: "\<exists>po. order_coll db' = order_coll db @ [(new_id, po)]
         \<and> list_all2
             (\<lambda>it s. \<exists>i p. ObjectId (product_id it) = Some i
                  \<and> find_one doc_id i (product_coll db) = Some p
                  \<and> product_id s = str_oid i
                  \<and> title s = get_or (doc_title p) ''Product''
                  \<and> price s = get_or (doc_price p) 0
                  \<and> image_url s = doc_image p
                  \<and> quantity s = quantity it)
             (items ord) (items po)"
    if run: "create_order email_ok db new_id ord = (Inr r, db')" for r db'
  proof -
    from create_order_Inr[OF run] obtain san where
      rel: "list_all2 (\<lambda>it s. price_item (product_coll db) it = Inr (price s, s)) (items ord) san"
      and db': "db' = \<lparr>product_coll = snd (decrement_stock san (product_coll db)),
               order_coll = order_coll db @
                 [(new_id, \<lparr>customer_name = customer_name ord, customer_email = customer_email ord,
                     customer_address = customer_address ord, items = san,
                     subtotal = round2 (line_total san), shipping = round2 (shipping ord),
                     total_due = round2 (line_total san + shipping ord),
                     status = ''processing''\<rparr>)]\<rparr>"
      by blast
    from rel snap have "list_all2
             (\<lambda>it s. \<exists>i p. ObjectId (product_id it) = Some i
                  \<and> find_one doc_id i (product_coll db) = Some p
                  \<and> product_id s = str_oid i
                  \<and> title s = get_or (doc_title p) ''Product''
                  \<and> price s = get_or (doc_price p) 0
                  \<and> image_url s = doc_image p
                  \<and> quantity s = quantity it)
             (items ord) san"
      by (rule list_all2_mono)
    then show ?thesis unfolding db' by simp
  qed
  have second: "create_order email_ok db new_id ord' = create_order email_ok db new_id ord"
    if "same_but_item_details ord ord'" for ord'
    using create_order_item_details[OF that] by simp
  from first second show ?thesis by blast
qed

theorem line_items_from_catalog_witness:
  "create_order any_email (shop tee) order_id1 (request [tampered] 5)
     = (Inr (Some (order_id1, tee_order)),
        \<lparr>product_coll = [tee\<lparr>doc_stock_qty := Some 97\<rparr>],
         order_coll = [(order_id1, tee_order)]\<rparr>)
   \<and> list_all2 (\<lambda>it s. title s = ''Classic Tee'' \<and> price s = 1999 / 100
                   \<and> image_url s = Some ''tee.jpg'')
       [line tee_id 3] (items tee_order)"
proof -
  let ?ord = "request [line tee_id 3] 5"
  let ?after = "\<lparr>product_coll = [tee\<lparr>doc_stock_qty := Some 97\<rparr>],
                 order_coll = [(order_id1, tee_order)]\<rparr>"
  note inst = line_items_from_catalog[of any_email "shop tee" order_id1 ?ord]
  have run: "create_order any_email (shop tee) order_id1 ?ord
               = (Inr (Some (order_id1, tee_order)), ?after)"
    by code_simp
  have same: "same_but_item_details ?ord (request [tampered] 5)"
    by code_simp
  from inst same run have one: "create_order any_email (shop tee) order_id1 (request [tampered] 5)
     = (Inr (Some (order_id1, tee_order)), ?after)"
    by metis
  from inst run obtain po where
    po: "order_coll ?after = order_coll (shop tee) @ [(order_id1, po)]"
    and rel: "list_all2
             (\<lambda>it s. \<exists>i p. ObjectId (product_id it) = Some i
                  \<and> find_one doc_id i (product_coll (shop tee)) = Some p
                  \<and> product_id s = str_oid i
                  \<and> title s = get_or (doc_title p) ''Product''
                  \<and> price s = get_or (doc_price p) 0
                  \<and> image_url s = doc_image p
                  \<and> quantity s = quantity it)
             (items ?ord) (items po)"
    by blast
  from po have eq: "po = tee_order" by (simp add: shop_def)
  have its: "items ?ord = [line tee_id 3]" by (simp add: request_def)
  have look: "ObjectId (product_id (line tee_id 3)) = Some (Oid tee_id)"
    "find_one doc_id (Oid tee_id) (product_coll (shop tee)) = Some tee"
    "get_or (doc_title tee) ''Product'' = ''Classic Tee''"
    "get_or (doc_price tee) 0 = 1999 / 100"
    "doc_image tee = Some ''tee.jpg''"
    by code_simp+
  have sole: "items tee_order = [snapshot tee (line tee_id 3)]"
    by (simp add: tee_order_def placed_def)
  from rel obtain i p where
    ip: "ObjectId (product_id (line tee_id 3)) = Some i"
        "find_one doc_id i (product_coll (shop tee)) = Some p"
    and s: "title (snapshot tee (line tee_id 3)) = get_or (doc_title p) ''Product''"
        "price (snapshot tee (line tee_id 3)) = get_or (doc_price p) 0"
        "image_url (snapshot tee (line tee_id 3)) = doc_image p"
    unfolding eq its sole by auto
  from ip look(1,2) have "p = tee" by simp
  with s look(3,4,5) have "list_all2 (\<lambda>it s. title s = ''Classic Tee'' \<and> price s = 1999 / 100
                   \<and> image_url s = Some ''tee.jpg'')
       [line tee_id 3] (items tee_order)"
    unfolding sole by simp
  with one show ?thesis by blast
qed

lemma round_half_even_of_int: "round_half_even (of_int n) = n"
  by (simp add: round_half_even_def)

lemma round2_idem: "round2 (round2 x) = round2 x"
  by (simp add: round2_def round_half_even_of_int)

lemma round_half_even_nonneg: "0 \<le> x \<Longrightarrow> 0 \<le> round_half_even x"
  by (simp add: round_half_even_def Let_def)

lemma round2_nonneg: "0 \<le> x \<Longrightarrow> 0 \<le> round2 x"
  by (simp add: round2_def round_half_even_nonneg)

lemma round_half_even_near: "\<bar>of_int (round_half_even x) - x\<bar> \<le> 1 / 2"
proof -
  have "of_int \<lfloor>x\<rfloor> \<le> x" "x < of_int \<lfloor>x\<rfloor> + 1" by linarith+
  then show ?thesis by (auto simp: round_half_even_def Let_def)
qed

lemma round_half_even_tie:
  "\<bar>of_int (round_half_even x) - x\<bar> = 1 / 2 \<Longrightarrow> even (round_half_even x)"
proof -
  assume t: "\<bar>of_int (round_half_even x) - x\<bar> = 1 / 2"
  have f: "of_int \<lfloor>x\<rfloor> \<le> x" "x < of_int \<lfloor>x\<rfloor> + 1" by linarith+
  show ?thesis
  proof (cases "x - of_int \<lfloor>x\<rfloor> < 1 / 2")
    case True
    with t f show ?thesis by (simp add: round_half_even_def Let_def)
  next
    case False
    show ?thesis
    proof (cases "1 / 2 < x - of_int \<lfloor>x\<rfloor>")
      case True
      with False t f show ?thesis by (simp add: round_half_even_def Let_def)
    next
      case False
      with \<open>\<not> x - of_int \<lfloor>x\<rfloor> < 1 / 2\<close> show ?thesis
        by (simp add: round_half_even_def Let_def)
    qed
  qed
qed

lemma round2_nearest:
  "\<exists>cents::int. round2 x = of_int cents / 100
      \<and> \<bar>round2 x - x\<bar> \<le> 1 / 200
      \<and> (\<bar>round2 x - x\<bar> = 1 / 200 \<longrightarrow> even cents)"
proof -
  let ?n = "round_half_even (x * 100)"
  have d: "\<bar>round2 x - x\<bar> = \<bar>of_int ?n - x * 100\<bar> / 100"
  proof -
    have eq: "round2 x - x = (of_int ?n - x * 100) / 100"
      by (simp add: round2_def diff_divide_distrib)
    have "\<bar>(of_int ?n - x * 100) / 100\<bar> = \<bar>of_int ?n - x * 100\<bar> / 100"
      by (simp only: abs_divide abs_numeral)
    then show ?thesis unfolding eq .
  qed
  from round_half_even_near[of "x * 100"] have n: "\<bar>round2 x - x\<bar> \<le> 1 / 200"
    unfolding d by simp
  have e: "even ?n" if "\<bar>round2 x - x\<bar> = 1 / 200"
  proof -
    from that have "\<bar>of_int ?n - x * 100\<bar> = 1 / 2" unfolding d by simp
    then show ?thesis by (rule round_half_even_tie)
  qed
  have "round2 x = of_int ?n / 100" by (simp add: round2_def)
  with n e show ?thesis by blast
qed

text \<open>
  C8, as stated: the shipping cost used in the order and stored with it is rounded to two
  decimal places.  The stored one is; the one that goes into the total is not: with a
  product priced 0.004 and a shipping cost of 0.004 the order stores shipping 0.00 and
  total 0.01, and 0.00 is what the rounded shipping cost would have given.
\<close>

theorem shipping_in_total_counterexample:
  "post_api_orders any_email (shop mill) order_id1 (request [line tee_id 1] (4 / 1000))
     = (Inr (Some (order_id1, mill_order)),
        \<lparr>product_coll = [mill\<lparr>doc_stock_qty := Some 99\<rparr>],
         order_coll = [(order_id1, mill_order)]\<rparr>)
   \<and> shipping mill_order = 0
   \<and> total_due mill_order = 1 / 100
   \<and> round2 (line_total (items mill_order) + shipping mill_order) = 0"
  by code_simp

text \<open>
  C8, amended: a request with a negative shipping cost is rejected by the schema check of
  the request body (\<open>shipping: float = Field(0, ge=0)\<close>), and nothing is written.  For
  every request that is accepted, the shipping cost stored with the order is the
  request's shipping cost rounded to two decimal places: the nearest whole number of
  hundredths, the even one of two equally near, unchanged by rounding again, and not
  negative.  The total is rounded from the sum of the line totals and the shipping cost
  of the request as it came, not rounded.
\<close>

theorem shipping_stored:
  "(shipping body < 0
      \<longrightarrow> post_api_orders email_ok db new_id body = (Inl RequestValidationError, db))
   \<and> (\<forall>r db'. post_api_orders email_ok db new_id body = (Inr r, db') \<longrightarrow>
         0 \<le> shipping body
         \<and> (\<exists>po. order_coll db' = order_coll db @ [(new_id, po)]
              \<and> shipping po = round2 (shipping body)
              \<and> round2 (shipping po) = shipping po
              \<and> (\<exists>cents::int. shipping po = of_int cents / 100
                    \<and> \<bar>shipping po - shipping body\<bar> \<le> 1 / 200
                    \<and> (\<bar>shipping po - shipping body\<bar> = 1 / 200 \<longrightarrow> even cents))
              \<and> 0 \<le> shipping po
              \<and> total_due po = round2 (line_total (items po) + shipping body)))"
proof -
  have rejected: "post_api_orders email_ok db new_id body = (Inl RequestValidationError, db)"
    if "shipping body < 0"
    using that by (simp add: post_api_orders_def Order_schema_def)
  have stored: "0 \<le> shipping body
         \<and> (\<exists>po. order_coll db' = order_coll db @ [(new_id, po)]
              \<and> shipping po = round2 (shipping body)
              \<and> round2 (shipping po) = shipping po
              \<and> (\<exists>cents::int. shipping po = of_int cents / 100
                    \<and> \<bar>shipping po - shipping body\<bar> \<le> 1 / 200
                    \<and> (\<bar>shipping po - shipping body\<bar> = 1 / 200 \<longrightarrow> even cents))
              \<and> 0 \<le> shipping po
              \<and> total_due po = round2 (line_total (items po) + shipping body))"
    if run: "post_api_orders email_ok db new_id body = (Inr r, db')" for r db'
  proof -
    from run have valid: "Order_schema email_ok body"
      and run': "create_order email_ok db new_id body = (Inr r, db')"
      by (auto simp: post_api_orders_def split: if_splits)
    from valid have nn: "0 \<le> shipping body" by (simp add: Order_schema_def)
    from create_order_Inr[OF run'] obtain san where
      db': "db' = \<lparr>product_coll = snd (decrement_stock san (product_coll db)),
               order_coll = order_coll db @
                 [(new_id, \<lparr>customer_name = customer_name body,
                     customer_email = customer_email body,
                     customer_address = customer_address body, items = san,
                     subtotal = round2 (line_total san), shipping = round2 (shipping body),
                     total_due = round2 (line_total san + shipping body),
                     status = ''processing''\<rparr>)]\<rparr>"
      by blast
    from nn round2_nearest[of "shipping body"] show ?thesis
      unfolding db' by (simp add: round2_idem round2_nonneg)
  qed
  from rejected stored show ?thesis by blast
qed

theorem shipping_stored_witness:
  "post_api_orders any_email (shop tee) order_id1 (request [line tee_id 3] (-1))
     = (Inl RequestValidationError, shop tee)
   \<and> post_api_orders any_email (shop tee) order_id1 (request [tampered] (1234 / 1000))
     = (Inr (Some (order_id1, placed [snapshot tee tampered] (5997 / 100) (123 / 100)
                                 (6120 / 100))),
        \<lparr>product_coll = [tee\<lparr>doc_stock_qty := Some 97\<rparr>],
         order_coll = [(order_id1, placed [snapshot tee tampered] (5997 / 100) (123 / 100)
                                     (6120 / 100))]\<rparr>)
   \<and> round2 (1234 / 1000) = 123 / 100"
proof -
  have neg: "shipping (request [line tee_id 3] (-1)) < 0" by (simp add: request_def)
  from shipping_stored[of "request [line tee_id 3] (-1)" any_email "shop tee" order_id1] neg
  have one: "post_api_orders any_email (shop tee) order_id1 (request [line tee_id 3] (-1))
     = (Inl RequestValidationError, shop tee)" by blast
  have two: "post_api_orders any_email (shop tee) order_id1 (request [tampered] (1234 / 1000))
     = (Inr (Some (order_id1, placed [snapshot tee tampered] (5997 / 100) (123 / 100)
                                 (6120 / 100))),
        \<lparr>product_coll = [tee\<lparr>doc_stock_qty := Some 97\<rparr>],
         order_coll = [(order_id1, placed [snapshot tee tampered] (5997 / 100) (123 / 100)
                                     (6120 / 100))]\<rparr>)"
    by code_simp
  from shipping_stored[of "request [tampered] (1234 / 1000)" any_email "shop tee" order_id1] two
  obtain po where po: "[(order_id1, placed [snapshot tee tampered] (5997 / 100) (123 / 100)
                                     (6120 / 100))] = order_coll (shop tee) @ [(order_id1, po)]"
    "shipping po = round2 (shipping (request [tampered] (1234 / 1000)))"
    by auto
  from po(1) have "po = placed [snapshot tee tampered] (5997 / 100) (123 / 100) (6120 / 100)"
    by (simp add: shop_def)
  with po(2) have three: "round2 (1234 / 1000) = 123 / 100"
    by (simp add: request_def placed_def)
  from one two three show ?thesis by blast
qed

text \<open>
  C10: \<open>create_order\<close> does not read the \<open>subtotal\<close>, \<open>total\<close> and \<open>status\<close> of the request
  body: replacing them changes nothing in its outcome, and neither in the outcome of
  the endpoint when both bodies satisfy the schema.  The persisted order of an
  accepted request has the status \<open>processing\<close> and the subtotal and total computed from
  the product records.
\<close>

theorem client_totals_ignored:
  "create_order email_ok db new_id (ord\<lparr>subtotal := a, total_due := b, status := c\<rparr>)
     = create_order email_ok db new_id ord
   \<and> (\<forall>r db'. create_order email_ok db new_id ord = (Inr r, db') \<longrightarrow>
         (\<exists>po. order_coll db' = order_coll db @ [(new_id, po)]
            \<and> status po = ''processing''
            \<and> subtotal po = round2 (line_total (items po))
            \<and> total_due po = round2 (line_total (items po) + shipping ord)))
   \<and> (Order_schema email_ok ord
        \<and> Order_schema email_ok (ord\<lparr>subtotal := a, total_due := b, status := c\<rparr>)
      \<longrightarrow> post_api_orders email_ok db new_id (ord\<lparr>subtotal := a, total_due := b, status := c\<rparr>)
            = post_api_orders email_ok db new_id ord)"
proof -
  have same: "create_order email_ok db new_id (ord\<lparr>subtotal := a, total_due := b, status := c\<rparr>)
     = create_order email_ok db new_id ord"
    by (simp add: create_order_def Let_def split: sum.splits)
  have stored: "\<exists>po. order_coll db' = order_coll db @ [(new_id, po)]
            \<and> status po = ''processing''
            \<and> subtotal po = round2 (line_total (items po))
            \<and> total_due po = round2 (line_total (items po) + shipping ord)"
    if run: "create_order email_ok db new_id ord = (Inr r, db')" for r db'
  proof -
    from create_order_Inr[OF run] obtain san where
      db': "db' = \<lparr>product_coll = snd (decrement_stock san (product_coll db)),
               order_coll = order_coll db @
                 [(new_id, \<lparr>customer_name = customer_name ord,
                     customer_email = customer_email ord,
                     customer_address = customer_address ord, items = san,
                     subtotal = round2 (line_total san), shipping = round2 (shipping ord),
                     total_due = round2 (line_total san + shipping ord),
                     status = ''processing''\<rparr>)]\<rparr>"
      by blast
    show ?thesis unfolding db' by simp
  qed
  have endpoint: "post_api_orders email_ok db new_id (ord\<lparr>subtotal := a, total_due := b, status := c\<rparr>)
            = post_api_orders email_ok db new_id ord"
    if "Order_schema email_ok ord"
      "Order_schema email_ok (ord\<lparr>subtotal := a, total_due := b, status := c\<rparr>)"
    using that same by (simp add: post_api_orders_def)
  from same stored endpoint show ?thesis by blast
qed

theorem client_totals_ignored_witness:
  "create_order any_email (shop tee) order_id1 forged
     = (Inr (Some (order_id1, tee_order)),
        \<lparr>product_coll = [tee\<lparr>doc_stock_qty := Some 97\<rparr>],
         order_coll = [(order_id1, tee_order)]\<rparr>)
   \<and> post_api_orders any_email (shop tee) order_id1 forged
     = post_api_orders any_email (shop tee) order_id1 (request [line tee_id 3] 5)
   \<and> status tee_order = ''processing''
   \<and> subtotal tee_order = 5997 / 100 \<and> total_due tee_order = 6497 / 100"
proof -
  let ?ord = "request [line tee_id 3] 5"
  let ?after = "\<lparr>product_coll = [tee\<lparr>doc_stock_qty := Some 97\<rparr>],
                 order_coll = [(order_id1, tee_order)]\<rparr>"
  note inst = client_totals_ignored[where email_ok = any_email and db = "shop tee"
                and new_id = order_id1 and ord = ?ord and a = "1 / 100" and b = "1 / 100"
                and c = "''delivered''"]
  have run: "create_order any_email (shop tee) order_id1 ?ord
               = (Inr (Some (order_id1, tee_order)), ?after)"
    by code_simp
  have valid: "Order_schema any_email ?ord
        \<and> Order_schema any_email (?ord\<lparr>subtotal := 1 / 100, total_due := 1 / 100,
                                        status := ''delivered''\<rparr>)"
    by code_simp
  from inst run have one: "create_order any_email (shop tee) order_id1 forged
               = (Inr (Some (order_id1, tee_order)), ?after)"
    unfolding forged_def by simp
  from inst valid have two: "post_api_orders any_email (shop tee) order_id1 forged
     = post_api_orders any_email (shop tee) order_id1 ?ord"
    unfolding forged_def by blast
  from inst run obtain po where
    po: "order_coll ?after = order_coll (shop tee) @ [(order_id1, po)]"
        "status po = ''processing''"
    by blast
  from po(1) have "po = tee_order" by (simp add: shop_def)
  with po(2) have three: "status tee_order = ''processing''" by simp
  have four: "subtotal tee_order = 5997 / 100" "total_due tee_order = 6497 / 100"
    by (simp_all add: tee_order_def placed_def)
  from one two three four show ?thesis by blast
qed

lemma dict_set_new: "k \<notin> fst ` set out \<Longrightarrow> dict_set out k v = out @ [(k, v)]"
  by (induction out) auto

lemma fst_render_field: "fst (render_field str kv) = (if fst kv = ''_id'' then ''id'' else fst kv)"
  by (simp add: render_field_def split: pyvalue.splits)

lemma serialize_items_step:
  "serialize_items str (kv # rest) out
     = serialize_items str rest
         (dict_set out (fst (render_field str kv)) (snd (render_field str kv)))"
  by (simp add: render_field_def split: pyvalue.splits)

lemma serialize_items_new_keys:
  "distinct (map (\<lambda>kv. fst (render_field str kv)) d)
     \<Longrightarrow> (\<lambda>kv. fst (render_field str kv)) ` set d \<inter> fst ` set out = {}
     \<Longrightarrow> serialize_items str d out = out @ map (render_field str) d"
proof (induction d arbitrary: out)
  case Nil
  then show ?case by simp
next
  case (Cons kv d)
  let ?k = "fst (render_field str kv)" and ?v = "snd (render_field str kv)"
  from Cons.prems(2) have new: "?k \<notin> fst ` set out" by auto
  then have set: "dict_set out ?k ?v = out @ [render_field str kv]"
    by (simp add: dict_set_new)
  from Cons.prems have
    "distinct (map (\<lambda>kv. fst (render_field str kv)) d)"
    "(\<lambda>kv. fst (render_field str kv)) ` set d \<inter> fst ` set (out @ [render_field str kv]) = {}"
    by auto
  from Cons.IH[OF this] show ?case
    unfolding serialize_items_step set by simp
qed

lemma renamed_keys_distinct:
  assumes "distinct (map fst d)" and "''id'' \<notin> fst ` set d"
  shows "distinct (map (\<lambda>kv. fst (render_field str kv)) d)"
proof -
  have "inj_on (\<lambda>k. if k = ''_id'' then ''id'' else k) (fst ` set d)"
    using assms(2) by (force simp: inj_on_def split: if_splits)
  with assms(1) have "distinct (map fst d)
      \<and> inj_on (\<lambda>k. if k = ''_id'' then ''id'' else k) (set (map fst d))"
    by simp
  then have "distinct (map (\<lambda>k. if k = ''_id'' then ''id'' else k) (map fst d))"
    by (rule iffD2[OF distinct_map])
  then show ?thesis by (simp add: fst_render_field comp_def)
qed

lemma serialize_doc_map:
  assumes "distinct (map fst d)" and "''id'' \<notin> fst ` set d"
  shows "serialize_doc str (Some d) = Some (map (render_field str) d)"
proof (cases "d = []")
  case True
  then show ?thesis by (simp add: serialize_doc_def)
next
  case False
  from serialize_items_new_keys[OF renamed_keys_distinct[OF assms], where out = "[]"]
  have "serialize_items str d [] = map (render_field str) d" by simp
  with False show ?thesis by (simp add: serialize_doc_def)
qed

text \<open>When a document has a field \<open>id\<close> besides \<open>_id\<close>, both are written to the key \<open>id\<close> and
  the later one stays.\<close>

lemma serialize_doc_id_clash:
  "serialize_doc str (Some [(''_id'', v), (''id'', VInt n)]) = Some [(''id'', VInt n)]"
  by (simp add: serialize_doc_def)

text \<open>
  C9, as stated: for every document, serialization writes the identifier as \<open>id\<close> and
  leaves every other key and value as they are.  It fails for a document that has a
  field \<open>id\<close> of its own: the identifier and that field are written to the same key, the
  later one stays, and the result has one key less.
\<close>

theorem serialize_doc_id_counterexample:
  "serialize_doc str_id (Some clash_doc)
     = Some [(''id'', VInt 7), (''title'', VStr ''Classic Tee'')]
   \<and> map_of clash_doc ''_id'' = Some (VObjectId (Oid tee_id))
   \<and> VInt 7 \<noteq> VStr (str_id (VObjectId (Oid tee_id)))"
  by code_simp

text \<open>
  C9, amended: for a document that has no field named \<open>id\<close> (its keys distinct, as in any
  \<open>dict\<close>), \<open>serialize_doc\<close> returns a document with the same keys in the same order but
  for \<open>_id\<close>, which becomes \<open>id\<close>; the value of \<open>id\<close> is the string form of the identifier,
  the value of a date or time field is its \<open>isoformat\<close> text, and every other field has
  the value it had.
\<close>

theorem serialize_doc_fields:
  assumes "distinct (map fst d)" and "''id'' \<notin> fst ` set d"
  shows "\<exists>out. serialize_doc str (Some d) = Some out
      \<and> map fst out = map (\<lambda>k. if k = ''_id'' then ''id'' else k) (map fst d)
      \<and> distinct (map fst out)
      \<and> (\<forall>v. (''_id'', v) \<in> set d \<longrightarrow> map_of out ''id'' = Some (VStr (str v)))
      \<and> (\<forall>k stamp. k \<noteq> ''_id'' \<and> (k, VDatetime stamp) \<in> set d
            \<longrightarrow> map_of out k = Some (VStr stamp))
      \<and> (\<forall>k v. k \<noteq> ''_id'' \<and> (\<forall>stamp. v \<noteq> VDatetime stamp) \<and> (k, v) \<in> set d
            \<longrightarrow> map_of out k = Some v)"
proof -
  let ?out = "map (render_field str) d"
  have keys: "map fst ?out = map (\<lambda>k. if k = ''_id'' then ''id'' else k) (map fst d)"
    by (simp add: fst_render_field comp_def)
  have dist: "distinct (map fst ?out)"
    using renamed_keys_distinct[OF assms, of str] by (simp add: comp_def)
  have look: "map_of ?out (fst (render_field str kv)) = Some (snd (render_field str kv))"
    if "kv \<in> set d" for kv
    using that dist by (intro map_of_is_SomeI) auto
  have ident: "map_of ?out ''id'' = Some (VStr (str v))" if "(''_id'', v) \<in> set d" for v
    using look[OF that] by (simp add: render_field_def)
  have stamp: "map_of ?out k = Some (VStr stamp)"
    if "k \<noteq> ''_id''" "(k, VDatetime stamp) \<in> set d" for k stamp
    using look[OF that(2)] that(1) by (simp add: render_field_def)
  have other: "map_of ?out k = Some v"
    if "k \<noteq> ''_id''" "\<forall>stamp. v \<noteq> VDatetime stamp" "(k, v) \<in> set d" for k v
    using look[OF that(3)] that(1,2) by (cases v) (simp_all add: render_field_def)
  from serialize_doc_map[OF assms] keys dist ident stamp other show ?thesis by blast
qed

theorem serialize_doc_fields_witness:
  "serialize_doc str_id (Some tee_doc)
     = Some [(''id'', VStr tee_id), (''title'', VStr ''Classic Tee''),
             (''price'', VFloat (1999 / 100)), (''stock_qty'', VInt 100),
             (''created_at'', VStr ''2024-05-01T12:00:00'')]
   \<and> (\<exists>out. serialize_doc str_id (Some tee_doc) = Some out
        \<and> map_of out ''id'' = Some (VStr tee_id)
        \<and> map_of out ''created_at'' = Some (VStr ''2024-05-01T12:00:00'')
        \<and> map_of out ''price'' = Some (VFloat (1999 / 100)))"
proof -
  have a: "distinct (map fst tee_doc)" by (simp add: tee_doc_def)
  have b: "''id'' \<notin> fst ` set tee_doc" by (simp add: tee_doc_def)
  have run: "serialize_doc str_id (Some tee_doc)
     = Some [(''id'', VStr tee_id), (''title'', VStr ''Classic Tee''),
             (''price'', VFloat (1999 / 100)), (''stock_qty'', VInt 100),
             (''created_at'', VStr ''2024-05-01T12:00:00'')]"
    by code_simp
  have mem: "(''_id'', VObjectId (Oid tee_id)) \<in> set tee_doc"
    "''created_at'' \<noteq> ''_id'' \<and> (''created_at'', VDatetime ''2024-05-01T12:00:00'') \<in> set tee_doc"
    "''price'' \<noteq> ''_id'' \<and> (\<forall>stamp. VFloat (1999 / 100) \<noteq> VDatetime stamp)
       \<and> (''price'', VFloat (1999 / 100)) \<in> set tee_doc"
    by (simp_all add: tee_doc_def)
  have s: "str_id (VObjectId (Oid tee_id)) = tee_id" by (simp add: str_id_def)
  from serialize_doc_fields[OF a b, of str_id] obtain out where
    out: "serialize_doc str_id (Some tee_doc) = Some out"
      "\<forall>v. (''_id'', v) \<in> set tee_doc \<longrightarrow> map_of out ''id'' = Some (VStr (str_id v))"
      "\<forall>k stamp. k \<noteq> ''_id'' \<and> (k, VDatetime stamp) \<in> set tee_doc
            \<longrightarrow> map_of out k = Some (VStr stamp)"
      "\<forall>k v. k \<noteq> ''_id'' \<and> (\<forall>stamp. v \<noteq> VDatetime stamp) \<and> (k, v) \<in> set tee_doc
            \<longrightarrow> map_of out k = Some v"
    by blast
  from out(2)[rule_format, of "VObjectId (Oid tee_id)"] mem(1) s
  have i: "map_of out ''id'' = Some (VStr tee_id)" by simp
  from out(3)[rule_format, of "''created_at''" "''2024-05-01T12:00:00''"] mem(2)
  have c: "map_of out ''created_at'' = Some (VStr ''2024-05-01T12:00:00'')" by simp
  from out(4)[rule_format, of "''price''" "VFloat (1999 / 100)"] mem(3)
  have p: "map_of out ''price'' = Some (VFloat (1999 / 100))" by simp
  from out(1) i c p have "\<exists>out. serialize_doc str_id (Some tee_doc) = Some out
        \<and> map_of out ''id'' = Some (VStr tee_id)
        \<and> map_of out ''created_at'' = Some (VStr ''2024-05-01T12:00:00'')
        \<and> map_of out ''price'' = Some (VFloat (1999 / 100))"
    by (intro exI[of _ out] conjI)
  with run show ?thesis by (rule conjI)
qed

end
